theory Spec2Isabelle
  imports Complex_Main
begin

section \<open>Python values\<close>

text \<open>
  The notebook \<^verbatim>\<open>05. Numerical_Traits_QA.ipynb\<close> works on Python strings, Python
  floats (IEEE 754 binary64) and NumPy \<^verbatim>\<open>float64\<close> scalars. A string is modelled as
  a \<^typ>\<open>string\<close> whose characters are read as the code points 0 to 255, so every
  statement below is about Python strings over that range of code points.

  A raise of the source is a value \<open>Inl e\<close> of the result type.
\<close>

datatype py_error = ValueError | IndexError | KeyError

text \<open>
  A binary64 value: a finite number (an exact rational, which is a multiple of a power of
  two with at most 53 significant bits), the negative zero, the two infinities, or a NaN.
\<close>

datatype float64 = Finite rat | MinusZero | PlusInf | MinusInf | NaN

text \<open>What a Python function returns where the source returns a number: an \<^verbatim>\<open>int\<close> or a float.\<close>

datatype pynum = PyInt int | PyFloat float64

text \<open>A value read from a data frame cell: a string, a float (pandas writes NaN for a missing cell) or None.\<close>

datatype pyobj = Str string | Float float64 | NoneObj

section \<open>String operations of the Python library\<close>

text \<open>\<^verbatim>\<open>string.punctuation\<close>: the 32 characters \<^verbatim>\<open>!"#$%&'()*+,-./:;<=>?@[\]^_`{|}~\<close>.\<close>

definition string_punctuation :: string where
  "string_punctuation =
     [CHR 0x21, CHR 0x22, CHR 0x23, CHR 0x24, CHR 0x25, CHR 0x26, CHR 0x27, CHR 0x28,
      CHR 0x29, CHR 0x2A, CHR 0x2B, CHR 0x2C, CHR 0x2D, CHR 0x2E, CHR 0x2F,
      CHR 0x3A, CHR 0x3B, CHR 0x3C, CHR 0x3D, CHR 0x3E, CHR 0x3F, CHR 0x40,
      CHR 0x5B, CHR 0x5C, CHR 0x5D, CHR 0x5E, CHR 0x5F, CHR 0x60,
      CHR 0x7B, CHR 0x7C, CHR 0x7D, CHR 0x7E]"

text \<open>\<^verbatim>\<open>answer.translate(str.maketrans('', '', string.punctuation))\<close>: delete every punctuation character.\<close>

definition translate_punctuation :: "string \<Rightarrow> string" where
  "translate_punctuation answer = filter (\<lambda>c. c \<notin> set string_punctuation) answer"

text \<open>
  \<^verbatim>\<open>s.split(sep)\<close> for a separator of one character: the pieces between the separators,
  empty pieces included; the result always has at least one piece.
\<close>

fun str_split :: "char \<Rightarrow> string \<Rightarrow> string list" where
  "str_split sep [] = [[]]"
| "str_split sep (c # cs) =
     (if c = sep then [] # str_split sep cs
      else (case str_split sep cs of
              [] \<Rightarrow> [[c]]
            | p # ps \<Rightarrow> (c # p) # ps))"

text \<open>\<^verbatim>\<open>sep.join(parts)\<close>.\<close>

fun str_join :: "string \<Rightarrow> string list \<Rightarrow> string" where
  "str_join sep [] = []"
| "str_join sep [p] = p"
| "str_join sep (p # q # ps) = p @ sep @ str_join sep (q # ps)"

text \<open>\<^verbatim>\<open>s.replace(old, new)\<close> for single characters.\<close>

definition str_replace :: "char \<Rightarrow> char \<Rightarrow> string \<Rightarrow> string" where
  "str_replace old new s = map (\<lambda>c. if c = old then new else c) s"

text \<open>
  \<^verbatim>\<open>str.isdigit\<close> on one character: below code point 256 the characters with the
  Unicode property Digit are 0 to 9 and the superscripts two, three and one.
\<close>

definition isdigit :: "char \<Rightarrow> bool" where
  "isdigit c = ((48 \<le> (of_char c :: nat) \<and> (of_char c :: nat) \<le> 57)
                \<or> c = CHR 0xB2 \<or> c = CHR 0xB3 \<or> c = CHR 0xB9)"

text \<open>Indexing a list: Python raises IndexError out of range.\<close>

definition getitem :: "'a list \<Rightarrow> nat \<Rightarrow> py_error + 'a" where
  "getitem xs i = (if i < length xs then Inr (xs ! i) else Inl IndexError)"

section \<open>Binary64 arithmetic\<close>

text \<open>Rounding a rational to the nearest integer, a tie to the even one.\<close>

definition round_half_even :: "rat \<Rightarrow> int" where
  "round_half_even x =
     (let f = \<lfloor>x\<rfloor>; d = x - of_int f
      in if d < 1 / 2 then f else if 1 / 2 < d then f + 1 else if even f then f else f + 1)"

definition pow_int :: "rat \<Rightarrow> int \<Rightarrow> rat" where
  "pow_int b e = (if 0 \<le> e then b ^ nat e else 1 / b ^ nat (- e))"

text \<open>The number of digits of a positive integer \<open>x\<close> in base \<open>b\<close>.\<close>

function count_digits :: "int \<Rightarrow> int \<Rightarrow> int" where
  "count_digits b x = (if 0 < x \<and> 1 < b then count_digits b (x div b) + 1 else 0)"
  by pat_completeness auto
termination
proof (relation "measure (\<lambda>(b, x). nat x)")
  show "wf (measure (\<lambda>(b :: int, x :: int). nat x))"
    by simp
next
  fix b x :: int
  assume "0 < x \<and> 1 < b"
  then have "x div b < x"
    by (simp add: int_div_less_self)
  with \<open>0 < x \<and> 1 < b\<close> show "((b, x div b), (b, x)) \<in> measure (\<lambda>(b, x). nat x)"
    by simp
qed

declare count_digits.simps [simp del]

text \<open>For \<open>a > 0\<close> and \<open>b > 1\<close>, the integer \<open>e\<close> with \<open>b ^ e \<le> a < b ^ (e + 1)\<close>.\<close>

definition ilog :: "int \<Rightarrow> rat \<Rightarrow> int" where
  "ilog b a =
     (if 1 \<le> a then count_digits b \<lfloor>a\<rfloor> - 1
      else - count_digits b (- \<lfloor>- (1 / a)\<rfloor> - 1))"

definition signed_zero :: "bool \<Rightarrow> float64" where
  "signed_zero neg = (if neg then MinusZero else Finite 0)"

definition signed_inf :: "bool \<Rightarrow> float64" where
  "signed_inf neg = (if neg then MinusInf else PlusInf)"

text \<open>\<open>a\<close> rounded to the nearest multiple of \<open>q\<close>, a tie to the even multiple.\<close>

definition round_to_quantum :: "rat \<Rightarrow> rat \<Rightarrow> rat" where
  "round_to_quantum a q = of_int (round_half_even (a / q)) * q"

text \<open>
  The float of sign \<open>neg\<close> and rounded magnitude \<open>r\<close>: an infinity from
  \<open>2 ^ 1024\<close> on, a signed zero for 0.
\<close>

definition assemble_double :: "bool \<Rightarrow> rat \<Rightarrow> float64" where
  "assemble_double neg r =
     (if pow_int 2 1024 \<le> r then signed_inf neg
      else if r = 0 then signed_zero neg
      else Finite (if neg then - r else r))"

text \<open>
  The binary64 value nearest to a rational, a tie to the even significand: 53 significant
  bits, so the spacing is \<open>2 ^ (e - 52)\<close> for a magnitude from \<open>2 ^ e\<close> up to
  \<open>2 ^ (e + 1)\<close>; the least exponent of a normal number is -1022, and below it the
  spacing stays \<open>2 ^ -1074\<close>; overflow gives an infinity, underflow a signed zero.
\<close>

definition round_to_double :: "rat \<Rightarrow> float64" where
  "round_to_double x =
     (if x = 0 then Finite 0
      else assemble_double (x < 0)
             (round_to_quantum \<bar>x\<bar> (pow_int 2 (max (ilog 2 \<bar>x\<bar>) (- 1022) - 52))))"

fun sign_bit :: "float64 \<Rightarrow> bool" where
  "sign_bit (Finite r) = (r < 0)"
| "sign_bit MinusZero = True"
| "sign_bit PlusInf = False"
| "sign_bit MinusInf = True"
| "sign_bit NaN = False"

fun is_zero :: "float64 \<Rightarrow> bool" where
  "is_zero (Finite r) = (r = 0)"
| "is_zero MinusZero = True"
| "is_zero _ = False"

fun is_inf :: "float64 \<Rightarrow> bool" where
  "is_inf PlusInf = True"
| "is_inf MinusInf = True"
| "is_inf _ = False"

fun magnitude :: "float64 \<Rightarrow> rat" where
  "magnitude (Finite r) = \<bar>r\<bar>"
| "magnitude _ = 0"

text \<open>The product and the quotient of two binary64 values, rounded once (IEEE 754).\<close>

definition fmul :: "float64 \<Rightarrow> float64 \<Rightarrow> float64" where
  "fmul x y =
     (if x = NaN \<or> y = NaN then NaN
      else let neg = (sign_bit x \<noteq> sign_bit y)
           in if is_inf x \<or> is_inf y then (if is_zero x \<or> is_zero y then NaN else signed_inf neg)
              else if is_zero x \<or> is_zero y then signed_zero neg
              else round_to_double ((if neg then - 1 else 1) * magnitude x * magnitude y))"

text \<open>
  Every division of the source divides by a non-zero constant (1000, 10, or a power of ten
  inside \<^verbatim>\<open>np.round\<close>); the IEEE results for a zero divisor are given for completeness.
\<close>

definition fdiv :: "float64 \<Rightarrow> float64 \<Rightarrow> float64" where
  "fdiv x y =
     (if x = NaN \<or> y = NaN then NaN
      else let neg = (sign_bit x \<noteq> sign_bit y)
           in if is_inf x then (if is_inf y then NaN else signed_inf neg)
              else if is_inf y then signed_zero neg
              else if is_zero y then (if is_zero x then NaN else signed_inf neg)
              else if is_zero x then signed_zero neg
              else round_to_double ((if neg then - 1 else 1) * magnitude x / magnitude y))"

text \<open>\<^verbatim>\<open>np.rint\<close>: the nearest integer, a tie to the even one; a result of zero keeps the sign.\<close>

fun rint :: "float64 \<Rightarrow> float64" where
  "rint (Finite r) =
     (let n = round_half_even r
      in if n = 0 then signed_zero (r < 0) else Finite (of_int n))"
| "rint x = x"

text \<open>
  \<^verbatim>\<open>np.round(x, decimals)\<close> for \<open>decimals > 0\<close> on a float: NumPy multiplies by
  \<open>10 ^ decimals\<close>, applies \<^verbatim>\<open>rint\<close> and divides by \<open>10 ^ decimals\<close>, each step in binary64.
\<close>

definition np_round :: "float64 \<Rightarrow> nat \<Rightarrow> float64" where
  "np_round x decimals =
     (let f = Finite (10 ^ decimals) in fdiv (rint (fmul x f)) f)"

text \<open>The comparison \<^verbatim>\<open>x <= y\<close> of two floats: false as soon as one of them is a NaN.\<close>

fun finite_value :: "float64 \<Rightarrow> rat" where
  "finite_value (Finite r) = r"
| "finite_value _ = 0"

definition fle :: "float64 \<Rightarrow> float64 \<Rightarrow> bool" where
  "fle x y =
     (if x = NaN \<or> y = NaN then False
      else if x = MinusInf \<or> y = PlusInf then True
      else if x = PlusInf \<or> y = MinusInf then False
      else finite_value x \<le> finite_value y)"

section \<open>Parsing and printing floats\<close>

definition is_ascii_digit :: "char \<Rightarrow> bool" where
  "is_ascii_digit c = (48 \<le> (of_char c :: nat) \<and> (of_char c :: nat) \<le> 57)"

text \<open>The number written by a string of decimal digits.\<close>

definition digits_value :: "string \<Rightarrow> int" where
  "digits_value ds = foldl (\<lambda>n c. 10 * n + (of_char c - 48)) 0 ds"

text \<open>
  The white space that \<^verbatim>\<open>float\<close> strips from both ends: below code point 256 these
  are the characters 9 to 13 and 32, and the characters 133 and 160, which \<^verbatim>\<open>float\<close>
  first turns into spaces.
\<close>

definition isspace :: "char \<Rightarrow> bool" where
  "isspace c = (let n = (of_char c :: nat)
                in (9 \<le> n \<and> n \<le> 13) \<or> n = 32 \<or> n = 133 \<or> n = 160)"

definition strip :: "string \<Rightarrow> string" where
  "strip s = rev (dropWhile isspace (rev (dropWhile isspace s)))"

text \<open>
  An underscore is accepted in a numeric literal only between two digits:
  \<open>prev\<close> is the character before the rest of the string.
\<close>

fun underscores_ok :: "char option \<Rightarrow> string \<Rightarrow> bool" where
  "underscores_ok prev [] = (prev \<noteq> Some (CHR ''_''))"
| "underscores_ok prev (c # cs) =
     ((if c = CHR ''_'' then (case prev of Some p \<Rightarrow> is_ascii_digit p | None \<Rightarrow> False)
       else if prev = Some (CHR ''_'') then is_ascii_digit c else True)
      \<and> underscores_ok (Some c) cs)"

text \<open>The lower-case form of an ASCII letter; any other character is unchanged.\<close>

definition ascii_lower :: "char \<Rightarrow> char" where
  "ascii_lower c =
     (case map_of (zip ''ABCDEFGHIJKLMNOPQRSTUVWXYZ'' ''abcdefghijklmnopqrstuvwxyz'') c of
        None \<Rightarrow> c
      | Some l \<Rightarrow> l)"

text \<open>
  An unsigned decimal literal: digits, an optional point and more digits (at least one
  digit in all), an optional exponent \<^verbatim>\<open>e\<close> or \<^verbatim>\<open>E\<close> with an optional sign and at
  least one digit. The result is the exact value; \<open>None\<close> when the whole string is
  not such a literal.
\<close>

definition parse_decimal :: "string \<Rightarrow> rat option" where
  "parse_decimal s =
     (let ip = takeWhile is_ascii_digit s;
          r1 = dropWhile is_ascii_digit s;
          (fp, r2) = (case r1 of
                        [] \<Rightarrow> ([], r1)
                      | c # t \<Rightarrow> if c = CHR ''.''
                                 then (takeWhile is_ascii_digit t, dropWhile is_ascii_digit t)
                                 else ([], r1));
          mantissa = of_int (digits_value (ip @ fp))
      in if ip = [] \<and> fp = [] then None
         else (case r2 of
                 [] \<Rightarrow> Some (mantissa * pow_int 10 (- int (length fp)))
               | c # t \<Rightarrow>
                   if c = CHR ''e'' \<or> c = CHR ''E'' then
                     (let (neg, ds) = (case t of
                                         [] \<Rightarrow> (False, t)
                                       | d # u \<Rightarrow> if d = CHR ''-'' then (True, u)
                                                  else if d = CHR ''+'' then (False, u)
                                                  else (False, t))
                      in if ds \<noteq> [] \<and> list_all is_ascii_digit ds
                         then Some (mantissa
                                    * pow_int 10 ((if neg then - digits_value ds else digits_value ds)
                                                  - int (length fp)))
                         else None)
                   else None))"

text \<open>
  \<^verbatim>\<open>float(element)\<close> for a string: an underscore only between digits, white space
  stripped at both ends, an optional sign, then \<^verbatim>\<open>inf\<close>, \<^verbatim>\<open>infinity\<close> or \<^verbatim>\<open>nan\<close> in
  any letter case, or a decimal literal, which is rounded to the nearest binary64 value.
  Any other string raises ValueError, the only exception \<^verbatim>\<open>float\<close> raises on a string.
\<close>

definition py_float :: "string \<Rightarrow> py_error + float64" where
  "py_float element =
     (if \<not> underscores_ok None element then Inl ValueError
      else let s = strip (filter (\<lambda>c. c \<noteq> CHR ''_'') element);
               (neg, body) = (case s of
                                [] \<Rightarrow> (False, s)
                              | c # t \<Rightarrow> if c = CHR ''-'' then (True, t)
                                         else if c = CHR ''+'' then (False, t)
                                         else (False, s));
               low = map ascii_lower body
           in if low = ''inf'' \<or> low = ''infinity'' then Inr (signed_inf neg)
              else if low = ''nan'' then Inr NaN
              else (case parse_decimal body of
                      None \<Rightarrow> Inl ValueError
                    | Some r \<Rightarrow> Inr (if r = 0 then signed_zero neg
                                      else round_to_double (if neg then - r else r))))"

text \<open>The decimal digits of a non-negative integer.\<close>

definition digit_char :: "int \<Rightarrow> char" where
  "digit_char d = (if 0 \<le> d \<and> d < 10 then ''0123456789'' ! nat d else CHR ''?'')"

function int_digits :: "int \<Rightarrow> string" where
  "int_digits n = (if n < 10 then [digit_char n] else int_digits (n div 10) @ [digit_char (n mod 10)])"
  by pat_completeness auto
termination
  by (relation "measure nat") auto

declare int_digits.simps [simp del]

text \<open>
  A decimal of \<open>n\<close> significant digits is a pair \<open>(m, k)\<close>: the integer \<open>m\<close> of
  its \<open>n\<close> digits and the exponent \<open>k\<close> of its leading digit, for the value
  \<open>m * 10 ^ (k - n + 1)\<close>.
\<close>

definition decimal_value :: "int \<times> int \<Rightarrow> nat \<Rightarrow> rat" where
  "decimal_value d n = of_int (fst d) * pow_int 10 (snd d - int n + 1)"

text \<open>\<open>a\<close> in units of the last of \<open>n\<close> digits, when the leading digit has the exponent \<open>k\<close>.\<close>

definition scale_to_digits :: "rat \<Rightarrow> nat \<Rightarrow> int \<Rightarrow> rat" where
  "scale_to_digits a n k = a / pow_int 10 (k - int n + 1)"

text \<open>Rounding up may give \<open>10 ^ n\<close>, which is written with the digits of \<open>10 ^ (n - 1)\<close> one exponent higher.\<close>

definition carry_digits :: "nat \<Rightarrow> int \<Rightarrow> int \<Rightarrow> int \<times> int" where
  "carry_digits n k m = (if m = 10 ^ n then (10 ^ (n - 1), k + 1) else (m, k))"

text \<open>\<open>a\<close> rounded to \<open>n\<close> significant decimal digits, a tie to the even digit.\<close>

definition sig_digits_at :: "rat \<Rightarrow> nat \<Rightarrow> int \<Rightarrow> int \<times> int" where
  "sig_digits_at a n k = carry_digits n k (round_half_even (scale_to_digits a n k))"

definition sig_digits :: "rat \<Rightarrow> nat \<Rightarrow> int \<times> int" where
  "sig_digits a n = sig_digits_at a n (ilog 10 a)"

text \<open>
  The decimals of \<open>n\<close> digits that can read back as \<open>a\<close>, given \<open>x\<close>, which is
  \<open>a\<close> in units of the last digit: the nearest one first, then the two next to
  \<open>a\<close>, the greatest one not above it and the one after.
\<close>

definition candidates_of :: "nat \<Rightarrow> int \<Rightarrow> rat \<Rightarrow> (int \<times> int) list" where
  "candidates_of n k x =
     [carry_digits n k (round_half_even x), (\<lfloor>x\<rfloor>, k), carry_digits n k (\<lfloor>x\<rfloor> + 1)]"

definition candidates_at :: "rat \<Rightarrow> nat \<Rightarrow> int \<Rightarrow> (int \<times> int) list" where
  "candidates_at a n k = candidates_of n k (scale_to_digits a n k)"

text \<open>The decimal reads back as the float \<open>a\<close>: it is rounded to \<open>a\<close> when parsed.\<close>

definition reads_back :: "rat \<Rightarrow> nat \<Rightarrow> int \<times> int \<Rightarrow> bool" where
  "reads_back a n d = (round_to_double (decimal_value d n) = Finite a)"

text \<open>
  A decimal of \<open>n\<close> significant digits that reads back as \<open>a\<close>, the nearest to
  \<open>a\<close> if there are two. The nearest one is tried first; another one is the answer where
  \<open>a\<close> is a power of two, whose lower neighbours are closer to it than its upper ones.
\<close>

definition round_trip_digits :: "rat \<Rightarrow> nat \<Rightarrow> (int \<times> int) option" where
  "round_trip_digits a n = find (reads_back a n) (candidates_at a n (ilog 10 a))"

text \<open>
  The search for the shortest decimal that reads back as \<open>a\<close>: \<open>found\<close> is what
  \<open>n\<close> digits gave, \<open>ns\<close> are the numbers of digits still to try. With 17 digits
  the nearest decimal always reads back.
\<close>

fun search_repr :: "rat \<Rightarrow> nat \<Rightarrow> (int \<times> int) option \<Rightarrow> nat list \<Rightarrow> nat \<times> (int \<times> int)" where
  "search_repr a n (Some d) ns = (n, d)"
| "search_repr a n None [] = (17, sig_digits a 17)"
| "search_repr a n None (n' # ns) = search_repr a n' (round_trip_digits a n') ns"

definition shortest_repr :: "rat \<Rightarrow> nat \<times> (int \<times> int)" where
  "shortest_repr a =
     search_repr a 1 (round_trip_digits a 1) [2, 3, 4, 5, 6, 7, 8, 9, 10, 11, 12, 13, 14, 15, 16]"

text \<open>
  The \<open>n\<close> digits \<open>ds\<close> of a decimal whose leading digit has the exponent \<open>k\<close>,
  laid out as Python does: in positional notation with at least one digit after the point
  when \<open>k\<close> is from -4 to 15, in scientific notation with an exponent of at least two
  digits otherwise.
\<close>

definition layout_digits :: "nat \<Rightarrow> int \<Rightarrow> string \<Rightarrow> string" where
  "layout_digits n k ds =
     (if - 4 \<le> k \<and> k < 16 then
        (if 0 \<le> k then
           take (nat k + 1) (ds @ replicate (nat k + 1 - n) (CHR ''0'')) @ ''.''
             @ (if n \<le> nat k + 1 then ''0'' else drop (nat k + 1) ds)
         else ''0.'' @ replicate (nat (- k) - 1) (CHR ''0'') @ ds)
      else
        (case ds of
           [] \<Rightarrow> []
         | d # rest \<Rightarrow>
             d # (if rest = [] then [] else CHR ''.'' # rest) @ ''e''
               @ (if k < 0 then ''-'' else ''+'')
               @ (let es = int_digits \<bar>k\<bar> in if length es < 2 then CHR ''0'' # es else es)))"

text \<open>
  The text of a positive finite float (\<^verbatim>\<open>repr\<close>, which \<^verbatim>\<open>str\<close> of a float and of a
  NumPy \<^verbatim>\<open>float64\<close> both give): the shortest digits that read back as the same
  value, laid out.
\<close>

definition float_repr_pos :: "rat \<Rightarrow> string" where
  "float_repr_pos a =
     (case shortest_repr a of (n, (m, k)) \<Rightarrow> layout_digits n k (int_digits m))"

text \<open>\<^verbatim>\<open>str(x)\<close> for a float or a NumPy \<^verbatim>\<open>float64\<close>.\<close>

fun py_str :: "float64 \<Rightarrow> string" where
  "py_str (Finite r) =
     (if r = 0 then ''0.0'' else if r < 0 then CHR ''-'' # float_repr_pos (- r) else float_repr_pos r)"
| "py_str MinusZero = ''-0.0''"
| "py_str PlusInf = ''inf''"
| "py_str MinusInf = ''-inf''"
| "py_str NaN = ''nan''"

section \<open>Regular expressions of the source\<close>

text \<open>
  The pattern \<^verbatim>\<open>\(*?\)\<close> matched at the start of a string, giving the rest after the
  match: a lazy run of opening parentheses, then one closing parenthesis. The pattern has
  no wildcard, so nothing but opening parentheses may stand before the closing one.
\<close>

fun match_lazy_parens :: "string \<Rightarrow> string option" where
  "match_lazy_parens [] = None"
| "match_lazy_parens (c # cs) =
     (if c = CHR '')'' then Some cs
      else if c = CHR ''('' then match_lazy_parens cs
      else None)"

text \<open>
  The pattern \<^verbatim>\<open>\(.*?\)\<close> matched at the start of a string: an opening parenthesis,
  a lazy run of characters other than a line feed, then the first closing parenthesis.
\<close>

fun match_until_close :: "string \<Rightarrow> string option" where
  "match_until_close [] = None"
| "match_until_close (c # cs) =
     (if c = CHR '')'' then Some cs
      else if c = CHR 0x0A then None
      else match_until_close cs)"

fun match_parenthetical :: "string \<Rightarrow> string option" where
  "match_parenthetical [] = None"
| "match_parenthetical (c # cs) = (if c = CHR ''('' then match_until_close cs else None)"

text \<open>
  \<^verbatim>\<open>re.sub("\(*?\)", "", s)\<close>: from left to right, the leftmost match is deleted and
  the scan goes on after it; a character where no match starts is kept.
\<close>

function re_sub_lazy_parens :: "string \<Rightarrow> string" where
  "re_sub_lazy_parens [] = []"
| "re_sub_lazy_parens (c # cs) =
     (case match_lazy_parens (c # cs) of
        Some rest \<Rightarrow> re_sub_lazy_parens rest
      | None \<Rightarrow> c # re_sub_lazy_parens cs)"
  by pat_completeness auto
termination
proof (relation "measure length")
  show "wf (measure (length :: string \<Rightarrow> nat))"
    by simp
next
  fix c :: char and cs rest :: string
  assume matched: "match_lazy_parens (c # cs) = Some rest"
  have "match_lazy_parens s = Some r \<Longrightarrow> length r < length s" for s r
    by (induction s) (auto split: if_splits)
  from this [OF matched] show "(rest, c # cs) \<in> measure length"
    by simp
next
  fix c :: char and cs :: string
  show "(cs, c # cs) \<in> measure length"
    by simp
qed

text \<open>\<^verbatim>\<open>re.sub("\(.*?\)", "", s)\<close>.\<close>

function re_sub_parenthetical :: "string \<Rightarrow> string" where
  "re_sub_parenthetical [] = []"
| "re_sub_parenthetical (c # cs) =
     (case match_parenthetical (c # cs) of
        Some rest \<Rightarrow> re_sub_parenthetical rest
      | None \<Rightarrow> c # re_sub_parenthetical cs)"
  by pat_completeness auto
termination
proof (relation "measure length")
  show "wf (measure (length :: string \<Rightarrow> nat))"
    by simp
next
  fix c :: char and cs rest :: string
  assume matched: "match_parenthetical (c # cs) = Some rest"
  have "match_until_close s = Some r \<Longrightarrow> length r < length s" for s r
    by (induction s) (auto split: if_splits)
  then have "match_parenthetical s = Some r \<Longrightarrow> length r < length s" for s r
    by (cases s) (fastforce split: if_splits)+
  from this [OF matched] show "(rest, c # cs) \<in> measure length"
    by simp
next
  fix c :: char and cs :: string
  show "(cs, c # cs) \<in> measure length"
    by simp
qed

section \<open>QA functions\<close>

definition py_bind :: "py_error + 'a \<Rightarrow> ('a \<Rightarrow> py_error + 'b) \<Rightarrow> py_error + 'b" where
  "py_bind m f = (case m of Inl e \<Rightarrow> Inl e | Inr x \<Rightarrow> f x)"

text \<open>
  The QA pipeline is an external callable: it takes the pair of a question and a context
  and gives an answer and a score. What it does besides is a state \<open>'s\<close> that each
  call may change.
\<close>

type_synonym 's pipeline = "string \<times> string \<Rightarrow> 's \<Rightarrow> (string \<times> float64) \<times> 's"

text \<open>
  A pipeline that answers by a function of its input and keeps, as its state, the list of
  the inputs it was called with, in the order of the calls.
\<close>

definition logged :: "(string \<times> string \<Rightarrow> string \<times> float64) \<Rightarrow> (string \<times> string) list pipeline" where
  "logged f QA_input calls = (f QA_input, calls @ [QA_input])"

text \<open>\<^verbatim>\<open>isinstance(Description, str)\<close>.\<close>

fun is_str :: "pyobj \<Rightarrow> bool" where
  "is_str (Str d) = True"
| "is_str _ = False"

text \<open>The loop of \<^verbatim>\<open>QA_Prediction\<close> over the questions.\<close>

fun ask_questions ::
  "'s pipeline \<Rightarrow> string \<Rightarrow> string list \<Rightarrow> string list \<Rightarrow> float64 list \<Rightarrow> 's
     \<Rightarrow> (string list \<times> float64 list) \<times> 's" where
  "ask_questions model_pipeline Description [] answer_list score_list s =
     ((answer_list, score_list), s)"
| "ask_questions model_pipeline Description (question # questions) answer_list score_list s =
     (let QA_input = (question, Description);
          (res, s') = model_pipeline QA_input s;
          answer = fst res;
          score = np_round (snd res) 3
      in ask_questions model_pipeline Description questions
           (answer_list @ [answer]) (score_list @ [score]) s')"

text \<open>
  \<^verbatim>\<open>np.argmax\<close> on floats: the first element is the maximum so far; a later element
  replaces it when it is not less than or equal (so also when it is a NaN), and a NaN ends
  the scan. An empty list raises ValueError.
\<close>

fun argmax_scan :: "float64 list \<Rightarrow> nat \<Rightarrow> float64 \<Rightarrow> nat \<Rightarrow> nat" where
  "argmax_scan [] i mp max_ind = max_ind"
| "argmax_scan (x # xs) i mp max_ind =
     (if \<not> fle x mp then (if x = NaN then i else argmax_scan xs (Suc i) x i)
      else argmax_scan xs (Suc i) mp max_ind)"

definition np_argmax :: "float64 list \<Rightarrow> py_error + nat" where
  "np_argmax xs =
     (case xs of
        [] \<Rightarrow> Inl ValueError
      | x # rest \<Rightarrow> Inr (if x = NaN then 0 else argmax_scan rest 1 x 0))"

text \<open>
  What the selection is meant to find: \<open>i\<close> is a position of the list, no score is
  greater than the one at \<open>i\<close>, and every score before \<open>i\<close> is less.
\<close>

definition first_max :: "float64 list \<Rightarrow> nat \<Rightarrow> bool" where
  "first_max xs i =
     (i < length xs \<and> (\<forall>j < length xs. fle (xs ! j) (xs ! i)) \<and> (\<forall>j < i. \<not> fle (xs ! i) (xs ! j)))"

definition QA_Prediction ::
  "string list \<Rightarrow> pyobj \<Rightarrow> 's pipeline \<Rightarrow> 's \<Rightarrow> (py_error + string \<times> string \<times> pynum) \<times> 's" where
  "QA_Prediction Questions Description model_pipeline s =
     (case Description of
        Str d \<Rightarrow>
          if \<not> list_ex isdigit d then (Inr ('''', ''No Number'', PyInt 0), s)
          else
            (let ((answer_list, score_list), s') = ask_questions model_pipeline d Questions [] [] s
             in (py_bind (np_argmax score_list) (\<lambda>best_answer_i.
                 py_bind (getitem Questions best_answer_i) (\<lambda>best_question.
                 py_bind (getitem answer_list best_answer_i) (\<lambda>best_answer.
                 py_bind (getitem score_list best_answer_i) (\<lambda>best_score.
                   Inr (best_question, best_answer, PyFloat best_score))))), s'))
      | _ \<Rightarrow> (Inr ('''', ''No Description'', PyInt 0), s))"

text \<open>
  \<^verbatim>\<open>is_float\<close>: True when \<^verbatim>\<open>float(element)\<close> returns, False when it raises
  ValueError; any other exception is not caught.
\<close>

definition is_float :: "string \<Rightarrow> py_error + bool" where
  "is_float element =
     (case py_float element of
        Inr x \<Rightarrow> Inr True
      | Inl e \<Rightarrow> if e = ValueError then Inr False else Inl e)"

section \<open>Post-processing of the answers\<close>

definition available_units :: "string list" where
  "available_units = [''mm'', ''cm'', ''m'', ''km'', ''inches'', ''ft'', ''yds'', ''miles'']"

text \<open>
  The rates \<^verbatim>\<open>(1, 10, 1000, 1e6, 25.4, 304.8, 914.4, 1.609344e6)\<close>: an integer rate
  is converted exactly when it meets a float; a float literal is the nearest binary64 value.
  The dictionary pairs each unit with its rate; the units are distinct, so a lookup in the
  list of pairs is the lookup in the dictionary.
\<close>

definition conversions :: "float64 list" where
  "conversions =
     [Finite 1, Finite 10, Finite 1000, Finite 1000000, round_to_double (254 / 10),
      round_to_double (3048 / 10), round_to_double (9144 / 10), Finite 1609344]"

definition conversion_dict :: "(string \<times> float64) list" where
  "conversion_dict = zip available_units conversions"

definition dict_get :: "(string \<times> float64) list \<Rightarrow> string \<Rightarrow> py_error + float64" where
  "dict_get d k = (case map_of d k of None \<Rightarrow> Inl KeyError | Some v \<Rightarrow> Inr v)"

text \<open>
  The search for the unit of measurement. \<open>None\<close> stands for \<^verbatim>\<open>flag == 0\<close> and
  \<open>Some metric\<close> for \<^verbatim>\<open>flag == 1\<close> with the variable \<^verbatim>\<open>metric\<close> set.
  The height function leaves the loop at the first unit found.
\<close>

fun find_metric_break :: "string list \<Rightarrow> string list \<Rightarrow> string option" where
  "find_metric_break words [] = None"
| "find_metric_break words (u # units) =
     (if u \<in> set words then Some u else find_metric_break words units)"

text \<open>
  The two leaf functions have no \<^verbatim>\<open>break\<close>: every unit is tried, and a later one
  found overwrites \<^verbatim>\<open>metric\<close>.
\<close>

fun find_metric :: "string list \<Rightarrow> string list \<Rightarrow> string option \<Rightarrow> string option" where
  "find_metric words [] metric = metric"
| "find_metric words (u # units) metric =
     find_metric words units (if u \<in> set words then Some u else metric)"

text \<open>
  The loop over the parts of the answer: \<open>divisor\<close> is 1000 for the height (metres)
  and 10 for the leaf functions (centimetres).
\<close>

fun convert_parts :: "string \<Rightarrow> float64 \<Rightarrow> string list \<Rightarrow> nat \<Rightarrow> string list \<Rightarrow> py_error + string" where
  "convert_parts metric divisor [] counter result = Inr (str_join '' '' result)"
| "convert_parts metric divisor (part # parts) counter result =
     (if counter > 2 then Inr ''Too many numbers''
      else py_bind (is_float part) (\<lambda>b.
        if b then
          py_bind (py_float part) (\<lambda>x.
          py_bind (dict_get conversion_dict metric) (\<lambda>rate.
            let tmp = py_str (np_round (fdiv (fmul x rate) divisor) 4)
            in convert_parts metric divisor parts (counter + 1) (result @ [tmp])))
        else convert_parts metric divisor parts counter result))"

definition post_process_answer_height :: "string \<Rightarrow> py_error + string" where
  "post_process_answer_height answer =
     (let answer_punc = translate_punctuation answer
      in case find_metric_break (str_split CHR '' '' answer_punc) available_units of
           None \<Rightarrow> Inr ''No metric''
         | Some metric \<Rightarrow>
             (let answer1 = re_sub_lazy_parens answer;
                  answer2 = str_replace CHR ''-'' CHR '' '' answer1
              in convert_parts metric (Finite 1000) (str_split CHR '' '' answer2) 0 []))"

definition post_process_answer_leaf_length :: "string \<Rightarrow> py_error + string" where
  "post_process_answer_leaf_length answer =
     (let answer_punc = translate_punctuation answer
      in case find_metric (str_split CHR '' '' answer_punc) available_units None of
           None \<Rightarrow> Inr ''No metric''
         | Some metric \<Rightarrow>
             py_bind (if CHR ''x'' \<in> set answer then getitem (str_split CHR ''x'' answer) 0 else Inr answer)
               (\<lambda>answer0.
                  let answer1 = re_sub_lazy_parens answer0;
                      answer2 = str_replace CHR ''-'' CHR '' '' answer1
                  in convert_parts metric (Finite 10) (str_split CHR '' '' answer2) 0 []))"

definition post_process_answer_leaf_width :: "string \<Rightarrow> py_error + string" where
  "post_process_answer_leaf_width answer =
     (let answer_punc = translate_punctuation answer
      in case find_metric (str_split CHR '' '' answer_punc) available_units None of
           None \<Rightarrow> Inr ''No metric''
         | Some metric \<Rightarrow>
             py_bind (if CHR ''x'' \<in> set answer then getitem (str_split CHR ''x'' answer) 1 else Inr answer)
               (\<lambda>answer0.
                  let answer1 = re_sub_parenthetical answer0;
                      answer2 = str_replace CHR ''-'' CHR '' '' answer1
                  in convert_parts metric (Finite 10) (str_split CHR '' '' answer2) 0 []))"

text \<open>The operator \<^verbatim>\<open>and\<close> evaluates its right operand only when the left one is true.\<close>

definition post_post_process_answer :: "string \<Rightarrow> py_error + pynum" where
  "post_post_process_answer answer =
     (let answer_parts = str_split CHR '' '' answer
      in py_bind (if length answer_parts = 1 then py_bind (getitem answer_parts 0) is_float
                  else Inr False) (\<lambda>one.
         if one then
           py_bind (getitem answer_parts 0) (\<lambda>p. py_bind (py_float p) (\<lambda>x. Inr (PyFloat x)))
         else
           py_bind (if length answer_parts = 2
                    then py_bind (py_bind (getitem answer_parts 0) is_float) (\<lambda>first.
                           if first then py_bind (getitem answer_parts 1) is_float else Inr False)
                    else Inr False) (\<lambda>two.
           if two then
             py_bind (getitem answer_parts 1) (\<lambda>p. py_bind (py_float p) (\<lambda>x. Inr (PyFloat x)))
           else Inr (PyInt (- 1)))))"

section \<open>Rules for evaluating the definitions on concrete inputs\<close>

lemma floor_rat_divide_numeral: "\<lfloor>numeral a / numeral b :: rat\<rfloor> = numeral a div numeral b"
  by (metis floor_divide_of_int_eq of_int_numeral)

lemma floor_rat_minus_divide_numeral:
  "\<lfloor>- (numeral a / numeral b) :: rat\<rfloor> = - numeral a div numeral b"
  by (metis divide_minus_left floor_divide_of_int_eq of_int_neg_numeral of_int_numeral)

lemma count_digits_step:
  "0 < x \<Longrightarrow> 1 < b \<Longrightarrow> count_digits b x = count_digits b (x div b) + 1"
  by (subst count_digits.simps) simp

lemma count_digits_stop: "x \<le> 0 \<Longrightarrow> count_digits b x = 0"
  by (subst count_digits.simps) simp

lemma int_digits_step:
  "10 \<le> n \<Longrightarrow> int_digits n = int_digits (n div 10) @ [digit_char (n mod 10)]"
  by (subst int_digits.simps) simp

lemma int_digits_stop: "n < 10 \<Longrightarrow> int_digits n = [digit_char n]"
  by (subst int_digits.simps) simp

lemma replicate_numeral: "replicate (numeral k) x = x # replicate (pred_numeral k) x"
  by (simp add: numeral_eq_Suc)

lemma py_bind_Inr: "py_bind (Inr x) f = f x"
  by (simp add: py_bind_def)

lemma py_bind_Inl: "py_bind (Inl e) f = Inl e"
  by (simp add: py_bind_def)

lemmas arith_eval = floor_rat_divide_numeral floor_rat_minus_divide_numeral count_digits_step
  count_digits_stop round_to_double_def round_to_quantum_def assemble_double_def ilog_def
  pow_int_def round_half_even_def Let_def fmul_def fdiv_def np_round_def signed_zero_def
  signed_inf_def

lemmas parse_eval = py_float_def parse_decimal_def is_ascii_digit_def digits_value_def strip_def
  isspace_def ascii_lower_def

lemmas print_eval = int_digits_step int_digits_stop shortest_repr_def round_trip_digits_def
  reads_back_def decimal_value_def sig_digits_def sig_digits_at_def candidates_at_def
  candidates_of_def carry_digits_def scale_to_digits_def float_repr_pos_def layout_digits_def
  digit_char_def replicate_numeral

lemmas text_eval = translate_punctuation_def string_punctuation_def str_replace_def
  available_units_def py_bind_Inr py_bind_Inl is_float_def getitem_def

subsection \<open>The tokens of the examples\<close>

lemma float_1: "py_float ''1'' = Inr (Finite 1)"
  by (simp add: parse_eval arith_eval)

lemma float_2: "py_float ''2'' = Inr (Finite 2)"
  by (simp add: parse_eval arith_eval)

lemma float_3: "py_float ''3'' = Inr (Finite 3)"
  by (simp add: parse_eval arith_eval)

lemma float_5: "py_float ''5'' = Inr (Finite 5)"
  by (simp add: parse_eval arith_eval)

lemma float_10: "py_float ''10'' = Inr (Finite 10)"
  by (simp add: parse_eval arith_eval)

lemma float_20: "py_float ''20'' = Inr (Finite 20)"
  by (simp add: parse_eval arith_eval)

lemma float_30: "py_float ''30'' = Inr (Finite 30)"
  by (simp add: parse_eval arith_eval)

lemma float_37: "py_float ''37'' = Inr (Finite 37)"
  by (simp add: parse_eval arith_eval)

lemma float_40: "py_float ''40'' = Inr (Finite 40)"
  by (simp add: parse_eval arith_eval)

lemma float_text_1_8: "py_float ''1.8'' = Inr (Finite (8106479329266893 / 4503599627370496))"
  by (simp add: parse_eval arith_eval)

lemma float_text_0_2: "py_float ''0.2'' = Inr (Finite (3602879701896397 / 18014398509481984))"
  by (simp add: parse_eval arith_eval)

lemma float_text_0_37: "py_float ''0.37'' = Inr (Finite (3332663724254167 / 9007199254740992))"
  by (simp add: parse_eval arith_eval)

lemma float_text_1_0: "py_float ''1.0'' = Inr (Finite 1)"
  by (simp add: parse_eval arith_eval)

lemma float_text_2_0: "py_float ''2.0'' = Inr (Finite 2)"
  by (simp add: parse_eval arith_eval)

lemma float_text_3_0: "py_float ''3.0'' = Inr (Finite 3)"
  by (simp add: parse_eval arith_eval)

lemma float_text_4_0: "py_float ''4.0'' = Inr (Finite 4)"
  by (simp add: parse_eval arith_eval)

lemma not_float_words:
  "py_float ''mm'' = Inl ValueError" "py_float ''cm'' = Inl ValueError"
  "py_float ''m'' = Inl ValueError" "py_float ''or'' = Inl ValueError"
  "py_float ''(rarely'' = Inl ValueError" "py_float '''' = Inl ValueError"
  "py_float ''No'' = Inl ValueError" "py_float ''Too'' = Inl ValueError"
  by (simp_all add: parse_eval)

lemma rates:
  "dict_get conversion_dict ''mm'' = Inr (Finite 1)"
  "dict_get conversion_dict ''cm'' = Inr (Finite 10)"
  "dict_get conversion_dict ''m'' = Inr (Finite 1000)"
  by (simp_all add: dict_get_def conversion_dict_def conversions_def available_units_def)

subsection \<open>The conversions of the examples\<close>

lemma metres_1:
  "py_str (np_round (fdiv (fmul (Finite 1) (Finite 1000)) (Finite 1000)) 4) = ''1.0''"
  by (simp add: arith_eval print_eval)

lemma metres_2:
  "py_str (np_round (fdiv (fmul (Finite 2) (Finite 1000)) (Finite 1000)) 4) = ''2.0''"
  by (simp add: arith_eval print_eval)

lemma metres_3:
  "py_str (np_round (fdiv (fmul (Finite 3) (Finite 1000)) (Finite 1000)) 4) = ''3.0''"
  by (simp add: arith_eval print_eval)

lemma metres_1_8:
  "py_str (np_round (fdiv (fmul (Finite (8106479329266893 / 4503599627370496)) (Finite 1000))
                      (Finite 1000)) 4) = ''1.8''"
  by (simp add: arith_eval print_eval)

lemma cm_to_metres_20:
  "py_str (np_round (fdiv (fmul (Finite 20) (Finite 10)) (Finite 1000)) 4) = ''0.2''"
  by (simp add: arith_eval print_eval)

lemma cm_to_metres_37:
  "py_str (np_round (fdiv (fmul (Finite 37) (Finite 10)) (Finite 1000)) 4) = ''0.37''"
  by (simp add: arith_eval print_eval)

lemma cm_to_metres_5:
  "py_str (np_round (fdiv (fmul (Finite 5) (Finite 10)) (Finite 1000)) 4) = ''0.05''"
  by (simp add: arith_eval print_eval)

lemma mm_to_metres_1:
  "py_str (np_round (fdiv (fmul (Finite 1) (Finite 1)) (Finite 1000)) 4) = ''0.001''"
  by (simp add: arith_eval print_eval)

lemma mm_to_metres_5:
  "py_str (np_round (fdiv (fmul (Finite 5) (Finite 1)) (Finite 1000)) 4) = ''0.005''"
  by (simp add: arith_eval print_eval)

lemma mm_to_cm_10:
  "py_str (np_round (fdiv (fmul (Finite 10) (Finite 1)) (Finite 10)) 4) = ''1.0''"
  by (simp add: arith_eval print_eval)

lemma mm_to_cm_20:
  "py_str (np_round (fdiv (fmul (Finite 20) (Finite 1)) (Finite 10)) 4) = ''2.0''"
  by (simp add: arith_eval print_eval)

lemma mm_to_cm_30:
  "py_str (np_round (fdiv (fmul (Finite 30) (Finite 1)) (Finite 10)) 4) = ''3.0''"
  by (simp add: arith_eval print_eval)

lemma mm_to_cm_40:
  "py_str (np_round (fdiv (fmul (Finite 40) (Finite 1)) (Finite 10)) 4) = ''4.0''"
  by (simp add: arith_eval print_eval)

lemma cm_1:
  "py_str (np_round (fdiv (fmul (Finite 1) (Finite 10)) (Finite 10)) 4) = ''1.0''"
  by (simp add: arith_eval print_eval)

lemma cm_5:
  "py_str (np_round (fdiv (fmul (Finite 5) (Finite 10)) (Finite 10)) 4) = ''5.0''"
  by (simp add: arith_eval print_eval)

lemma str_0_37: "py_str (Finite (3332663724254167 / 9007199254740992)) = ''0.37''"
  by (simp add: arith_eval print_eval)

lemma double_0_37: "round_to_double (37 / 100) = Finite (3332663724254167 / 9007199254740992)"
  by (simp add: arith_eval)

lemma double_1_8: "round_to_double (9 / 5) = Finite (8106479329266893 / 4503599627370496)"
  by (simp add: arith_eval)

lemma double_0_123: "round_to_double (123 / 1000) = Finite (553942754166571 / 4503599627370496)"
  by (simp add: arith_eval)

lemma double_0_1231:
  "round_to_double (1231 / 10000) = Finite (8870289826068929 / 72057594037927936)"
  by (simp add: arith_eval)

lemma double_0_1233:
  "round_to_double (1233 / 10000) = Finite (8884701344876515 / 72057594037927936)"
  by (simp add: arith_eval)

lemma round_0_1231:
  "np_round (round_to_double (1231 / 10000)) 3 = Finite (553942754166571 / 4503599627370496)"
  by (simp add: arith_eval)

lemma round_0_1233:
  "np_round (round_to_double (1233 / 10000)) 3 = Finite (553942754166571 / 4503599627370496)"
  by (simp add: arith_eval)

lemma round_0_0007:
  "np_round (round_to_double (7 / 10000)) 3 = Finite (1152921504606847 / 1152921504606846976)"
  by (simp add: arith_eval)

text \<open>
  The printer at a power of two, where the nearest decimal of 16 digits does not read back
  and the next one above does.
\<close>

lemma str_power_of_two: "py_str (Finite (2 ^ 89)) = ''6.189700196426902e+26''"
  by (simp add: arith_eval print_eval)

lemmas numbers = float_1 float_2 float_3 float_5 float_10 float_20 float_30 float_37 float_40
  float_text_1_8 float_text_0_2 float_text_0_37 float_text_1_0 float_text_2_0 float_text_3_0
  float_text_4_0 not_float_words rates metres_1 metres_2 metres_3 metres_1_8 cm_to_metres_20
  cm_to_metres_37 cm_to_metres_5 mm_to_metres_1 mm_to_metres_5 mm_to_cm_10 mm_to_cm_20
  mm_to_cm_30 mm_to_cm_40 cm_1 cm_5 str_0_37 double_0_37 double_1_8

section \<open>The numeric check and the split\<close>

lemma py_float_raises: "py_float element = Inl e \<Longrightarrow> e = ValueError"
  by (auto simp: py_float_def Let_def split: if_splits option.splits prod.splits list.splits)

lemma is_float_cases:
  "is_float p = Inr (case py_float p of Inl e \<Rightarrow> False | Inr x \<Rightarrow> True)"
  by (cases "py_float p") (auto simp: is_float_def dest: py_float_raises)

lemma str_split_not_Nil: "str_split sep s \<noteq> []"
  by (induction s) (auto split: list.splits)


section \<open>The search for the unit\<close>

lemma find_metric_break_find:
  "find_metric_break words units = find (\<lambda>u. u \<in> set words) units"
  by (induction units) simp_all

lemma find_append_cases:
  "find P (xs @ ys) = (case find P xs of None \<Rightarrow> find P ys | Some x \<Rightarrow> Some x)"
  by (induction xs) simp_all

lemma find_metric_find:
  "find_metric words units metric =
     (case find (\<lambda>u. u \<in> set words) (rev units) of None \<Rightarrow> metric | Some u \<Rightarrow> Some u)"
proof (induction units arbitrary: metric)
  case Nil
  then show ?case by simp
next
  case (Cons u units)
  show ?case
    by (simp add: Cons.IH find_append_cases split: option.splits)
qed

lemma find_metric_break_None:
  "find_metric_break words units = None \<longleftrightarrow> set units \<inter> set words = {}"
  by (induction units) auto

lemma find_metric_None:
  "find_metric words units metric = None \<longleftrightarrow> metric = None \<and> set units \<inter> set words = {}"
  by (induction units arbitrary: metric) auto

lemma translate_punctuation_insert:
  "p \<in> set string_punctuation
     \<Longrightarrow> translate_punctuation (a @ p # b) = translate_punctuation (a @ b)"
  by (simp add: translate_punctuation_def)

section \<open>The comparison of scores and the selection\<close>

lemma fle_NaN [simp]: "\<not> fle NaN y" "\<not> fle x NaN"
  by (simp_all add: fle_def)

lemma fle_total: "x \<noteq> NaN \<Longrightarrow> y \<noteq> NaN \<Longrightarrow> fle x y \<or> fle y x"
  by (cases x; cases y) (auto simp: fle_def)

lemma fle_trans: "fle x y \<Longrightarrow> fle y z \<Longrightarrow> fle x z"
  by (cases x; cases y; cases z) (auto simp: fle_def)

lemma fle_refl: "x \<noteq> NaN \<Longrightarrow> fle x x"
  by (cases x) (auto simp: fle_def)

lemma round_to_double_not_NaN: "round_to_double x \<noteq> NaN"
  by (simp add: round_to_double_def assemble_double_def signed_inf_def signed_zero_def)

lemma np_round_NaN: "0 < n \<Longrightarrow> np_round x n = NaN \<longleftrightarrow> x = NaN"
proof -
  assume "0 < n"
  have mul: "fmul x (Finite (10 ^ n)) = NaN \<longleftrightarrow> x = NaN"
    by (cases x) (auto simp: fmul_def Let_def signed_inf_def signed_zero_def round_to_double_not_NaN)
  have rnd: "rint y = NaN \<longleftrightarrow> y = NaN" for y
    by (cases y) (auto simp: Let_def signed_zero_def)
  have dvd: "fdiv y (Finite (10 ^ n)) = NaN \<longleftrightarrow> y = NaN" for y
    by (cases y) (auto simp: fdiv_def Let_def signed_inf_def signed_zero_def round_to_double_not_NaN)
  show ?thesis
    by (simp add: np_round_def Let_def dvd rnd mul)
qed

lemma ask_questions_logged:
  "ask_questions (logged f) d qs answer_list score_list calls =
     ((answer_list @ map (\<lambda>q. fst (f (q, d))) qs,
       score_list @ map (\<lambda>q. np_round (snd (f (q, d))) 3) qs),
      calls @ map (\<lambda>q. (q, d)) qs)"
  by (induction qs arbitrary: answer_list score_list calls) (simp_all add: logged_def Let_def)

text \<open>
  The scan of \<^verbatim>\<open>np.argmax\<close> keeps the first maximum: \<open>ys\<close> are the scores already
  seen, with their first maximum \<open>mp\<close> at position \<open>k\<close>.
\<close>

lemma argmax_scan_first_max:
  "NaN \<notin> set xs \<Longrightarrow> first_max ys k \<Longrightarrow> ys ! k = mp
     \<Longrightarrow> first_max (ys @ xs) (argmax_scan xs (length ys) mp k)"
proof (induction xs arbitrary: ys mp k)
  case Nil
  then show ?case by simp
next
  case (Cons x xs)
  from Cons.prems have x: "x \<noteq> NaN" and xs: "NaN \<notin> set xs"
    by auto
  from Cons.prems have k: "k < length ys" and ub: "\<forall>j < length ys. fle (ys ! j) mp"
    and lb: "\<forall>j < k. \<not> fle mp (ys ! j)"
    by (auto simp: first_max_def)
  from ub k have mp: "mp \<noteq> NaN"
    using Cons.prems(3) by (metis fle_NaN(2))
  show ?case
  proof (cases "fle x mp")
    case True
    have "first_max (ys @ [x]) k"
      using k ub lb True Cons.prems(3)
      by (auto simp: first_max_def nth_append less_Suc_eq)
    moreover have "(ys @ [x]) ! k = mp"
      using k Cons.prems(3) by (simp add: nth_append)
    ultimately have "first_max ((ys @ [x]) @ xs) (argmax_scan xs (length (ys @ [x])) mp k)"
      using Cons.IH [OF xs] by blast
    with True show ?thesis by simp
  next
    case False
    with x mp have less: "fle mp x"
      using fle_total by blast
    have "first_max (ys @ [x]) (length ys)"
      unfolding first_max_def
    proof (intro conjI allI impI)
      show "length ys < length (ys @ [x])" by simp
    next
      fix j assume "j < length (ys @ [x])"
      then show "fle ((ys @ [x]) ! j) ((ys @ [x]) ! length ys)"
        using ub less x by (auto simp: nth_append less_Suc_eq intro: fle_trans fle_refl)
    next
      fix j assume j: "j < length ys"
      show "\<not> fle ((ys @ [x]) ! length ys) ((ys @ [x]) ! j)"
      proof
        assume "fle ((ys @ [x]) ! length ys) ((ys @ [x]) ! j)"
        with j have "fle x (ys ! j)" by (simp add: nth_append)
        with ub j have "fle x mp" by (blast intro: fle_trans)
        with False show False by simp
      qed
    qed
    moreover have "(ys @ [x]) ! length ys = x"
      by simp
    ultimately have "first_max ((ys @ [x]) @ xs) (argmax_scan xs (length (ys @ [x])) x (length ys))"
      using Cons.IH [OF xs] by blast
    with False x show ?thesis by simp
  qed
qed

lemma np_argmax_first_max:
  assumes "xs \<noteq> []" and "NaN \<notin> set xs"
  shows "\<exists>i. np_argmax xs = Inr i \<and> first_max xs i"
proof -
  from assms obtain x rest where xs: "xs = x # rest"
    by (cases xs) auto
  with assms have x: "x \<noteq> NaN" and rest: "NaN \<notin> set rest"
    by auto
  have "first_max [x] 0"
    using x by (simp add: first_max_def fle_refl)
  from argmax_scan_first_max [OF rest this, of x]
  have "first_max ([x] @ rest) (argmax_scan rest 1 x 0)"
    by simp
  with xs x show ?thesis
    by (simp add: np_argmax_def)
qed

section \<open>The claims\<close>

text \<open>
  Claim C1. The parser is to return at most two values, and the text "Too many numbers"
  as soon as a third number is found. The loop tests \<^verbatim>\<open>counter > 2\<close> at the head of each
  pass, before the part is looked at, so the test can only fire on a part that comes after
  the third number. When the third number is the last part of the answer, all three
  functions return three values; when a part follows it (here the unit), they return
  "Too many numbers".
\<close>

theorem third_number_kept:
  "post_process_answer_height ''1-2 m or 3'' = Inr ''1.0 2.0 3.0''
   \<and> post_process_answer_leaf_length ''10-20 mm or 30'' = Inr ''1.0 2.0 3.0''
   \<and> post_process_answer_leaf_width ''10-20 mm or 30'' = Inr ''1.0 2.0 3.0''
   \<and> post_process_answer_height ''1 2 3 m'' = Inr ''Too many numbers''"
proof (intro conjI)
  show "post_process_answer_height ''1-2 m or 3'' = Inr ''1.0 2.0 3.0''"
    by (simp add: post_process_answer_height_def text_eval numbers)
  show "post_process_answer_leaf_length ''10-20 mm or 30'' = Inr ''1.0 2.0 3.0''"
    by (simp add: post_process_answer_leaf_length_def text_eval numbers)
  show "post_process_answer_leaf_width ''10-20 mm or 30'' = Inr ''1.0 2.0 3.0''"
    by (simp add: post_process_answer_leaf_width_def text_eval numbers)
  show "post_process_answer_height ''1 2 3 m'' = Inr ''Too many numbers''"
    by (simp add: post_process_answer_height_def text_eval numbers)
qed

text \<open>
  Claim C2, as stated, puts the leaf length with the height: the first unit found wins.
  The leaf length function has no \<^verbatim>\<open>break\<close>. On the answer "1 cm 5 mm" the height
  function takes the millimetre, first in the order of the units, and the leaf length
  function takes the centimetre, last of the units found.
\<close>

theorem leaf_length_last_unit:
  "post_process_answer_leaf_length ''1 cm 5 mm'' = Inr ''1.0 5.0''
   \<and> post_process_answer_height ''1 cm 5 mm'' = Inr ''0.001 0.005''
   \<and> find_metric_break (str_split CHR '' '' (translate_punctuation ''1 cm 5 mm'')) available_units
       = Some ''mm''
   \<and> find_metric (str_split CHR '' '' (translate_punctuation ''1 cm 5 mm'')) available_units None
       = Some ''cm''"
proof (intro conjI)
  show "post_process_answer_leaf_length ''1 cm 5 mm'' = Inr ''1.0 5.0''"
    by (simp add: post_process_answer_leaf_length_def text_eval numbers)
  show "post_process_answer_height ''1 cm 5 mm'' = Inr ''0.001 0.005''"
    by (simp add: post_process_answer_height_def text_eval numbers)
  show "find_metric_break (str_split CHR '' '' (translate_punctuation ''1 cm 5 mm'')) available_units
       = Some ''mm''"
    by (simp add: text_eval)
  show "find_metric (str_split CHR '' '' (translate_punctuation ''1 cm 5 mm'')) available_units None
       = Some ''cm''"
    by (simp add: text_eval)
qed

text \<open>
  Claim C2, amended. All three functions compare the units, in the order mm, cm, m, km,
  inches, ft, yds, miles, with the pieces of the answer that remain when the punctuation
  is deleted and the text is split at each space. The height function goes on with the
  first unit of that order that is one of the pieces; the leaf length and the leaf width
  functions go on with the last such unit (the first of the reversed order). With no such
  unit each returns "No metric".
\<close>

theorem unit_scan_order:
  "post_process_answer_height answer =
     (case find (\<lambda>u. u \<in> set (str_split CHR '' '' (translate_punctuation answer))) available_units of
        None \<Rightarrow> Inr ''No metric''
      | Some metric \<Rightarrow>
          convert_parts metric (Finite 1000)
            (str_split CHR '' '' (str_replace CHR ''-'' CHR '' '' (re_sub_lazy_parens answer))) 0 [])
   \<and> post_process_answer_leaf_length answer =
     (case find (\<lambda>u. u \<in> set (str_split CHR '' '' (translate_punctuation answer)))
             (rev available_units) of
        None \<Rightarrow> Inr ''No metric''
      | Some metric \<Rightarrow>
          py_bind (if CHR ''x'' \<in> set answer then getitem (str_split CHR ''x'' answer) 0
                   else Inr answer)
            (\<lambda>answer0.
               convert_parts metric (Finite 10)
                 (str_split CHR '' '' (str_replace CHR ''-'' CHR '' '' (re_sub_lazy_parens answer0)))
                 0 []))
   \<and> post_process_answer_leaf_width answer =
     (case find (\<lambda>u. u \<in> set (str_split CHR '' '' (translate_punctuation answer)))
             (rev available_units) of
        None \<Rightarrow> Inr ''No metric''
      | Some metric \<Rightarrow>
          py_bind (if CHR ''x'' \<in> set answer then getitem (str_split CHR ''x'' answer) 1
                   else Inr answer)
            (\<lambda>answer0.
               convert_parts metric (Finite 10)
                 (str_split CHR '' '' (str_replace CHR ''-'' CHR '' '' (re_sub_parenthetical answer0)))
                 0 []))"
  by (simp add: post_process_answer_height_def post_process_answer_leaf_length_def
        post_process_answer_leaf_width_def find_metric_break_find find_metric_find Let_def
      split: option.splits)

text \<open>
  Claim C3. Whatever the questions, the pipeline and its state are: a description that is
  not a string gives the empty question, the answer "No Description" and the score 0, and
  a string with no digit character gives the empty question, the answer "No Number" and
  the score 0. In both cases the state of the pipeline comes back as it went in, which for
  a pipeline that logs or counts its calls means that it was not called.
\<close>

theorem selector_short_circuit:
  "(\<not> is_str Description \<longrightarrow>
      QA_Prediction Questions Description model_pipeline s
        = (Inr ('''', ''No Description'', PyInt 0), s))
   \<and> (\<not> list_ex isdigit d \<longrightarrow>
      QA_Prediction Questions (Str d) model_pipeline s
        = (Inr ('''', ''No Number'', PyInt 0), s))"
  by (cases Description) (simp_all add: QA_Prediction_def)

theorem selector_short_circuit_witness:
  "\<not> is_str (Float NaN)
   \<and> QA_Prediction [''How tall is the plant?'', ''What is the height?''] (Float NaN)
         (logged (\<lambda>QA_input. (''3 m'', Finite 1))) []
       = (Inr ('''', ''No Description'', PyInt 0), [])
   \<and> \<not> list_ex isdigit ''A tall tree.''
   \<and> QA_Prediction [''How tall is the plant?'', ''What is the height?''] (Str ''A tall tree.'')
         (logged (\<lambda>QA_input. (''3 m'', Finite 1))) []
       = (Inr ('''', ''No Number'', PyInt 0), [])"
  using selector_short_circuit
          [of "Float NaN" "[''How tall is the plant?'', ''What is the height?'']"
              "logged (\<lambda>QA_input. (''3 m'', Finite 1))" "[]" "''A tall tree.''"]
  by (simp add: isdigit_def)


text \<open>
  Claim C5. The parser is to delete what stands in parentheses. The leaf width function
  does, with the pattern \<^verbatim>\<open>\(.*?\)\<close>. The height and the leaf length functions use the
  pattern \<^verbatim>\<open>\(*?\)\<close>, without the dot: it matches a closing parenthesis and the opening
  ones right before it, so only the closing parenthesis of "(rarely 2 m)" is deleted and
  the number inside is converted with the others.
\<close>

theorem parenthesis_kept:
  "re_sub_lazy_parens ''1 m (rarely 2 m)'' = ''1 m (rarely 2 m''
   \<and> post_process_answer_height ''1 m (rarely 2 m)'' = Inr ''1.0 2.0''
   \<and> post_process_answer_leaf_length ''10 mm (rarely 20 mm)'' = Inr ''1.0 2.0''
   \<and> re_sub_parenthetical ''10 mm (rarely 20 mm)'' = ''10 mm ''
   \<and> post_process_answer_leaf_width ''10 mm (rarely 20 mm)'' = Inr ''1.0''"
proof (intro conjI)
  show "re_sub_lazy_parens ''1 m (rarely 2 m)'' = ''1 m (rarely 2 m''"
    by simp
  show "post_process_answer_height ''1 m (rarely 2 m)'' = Inr ''1.0 2.0''"
    by (simp add: post_process_answer_height_def text_eval numbers)
  show "post_process_answer_leaf_length ''10 mm (rarely 20 mm)'' = Inr ''1.0 2.0''"
    by (simp add: post_process_answer_leaf_length_def text_eval numbers)
  show "re_sub_parenthetical ''10 mm (rarely 20 mm)'' = ''10 mm ''"
    by simp
  show "post_process_answer_leaf_width ''10 mm (rarely 20 mm)'' = Inr ''1.0''"
    by (simp add: post_process_answer_leaf_width_def text_eval numbers)
qed

text \<open>
  Claim C6. For the height, with the rate 10 of the centimetre and the divisor 1000, the
  answer "20-37 cm" is normalized to "0.2 0.37" and that text resolves to the float 0.37;
  the answer "1.8 m" is normalized to "1.8" and that text resolves to the float 1.8. A
  float is named here by the decimal it is nearest to.
\<close>

theorem height_examples:
  "dict_get conversion_dict ''cm'' = Inr (Finite 10)
   \<and> post_process_answer_height ''20-37 cm'' = Inr ''0.2 0.37''
   \<and> post_post_process_answer ''0.2 0.37'' = Inr (PyFloat (round_to_double (37 / 100)))
   \<and> post_process_answer_height ''1.8 m'' = Inr ''1.8''
   \<and> post_post_process_answer ''1.8'' = Inr (PyFloat (round_to_double (18 / 10)))"
proof (intro conjI)
  show "dict_get conversion_dict ''cm'' = Inr (Finite 10)"
    by (rule rates)
  show "post_process_answer_height ''20-37 cm'' = Inr ''0.2 0.37''"
    by (simp add: post_process_answer_height_def text_eval numbers)
  show "post_post_process_answer ''0.2 0.37'' = Inr (PyFloat (round_to_double (37 / 100)))"
    by (simp add: post_post_process_answer_def text_eval numbers)
  show "post_process_answer_height ''1.8 m'' = Inr ''1.8''"
    by (simp add: post_process_answer_height_def text_eval numbers)
  show "post_post_process_answer ''1.8'' = Inr (PyFloat (round_to_double (18 / 10)))"
    by (simp add: post_post_process_answer_def text_eval numbers)
qed

text \<open>
  Claim C7. On the answer "20-40x10-30 mm", with the rate 1 of the millimetre and the
  divisor 10, the leaf length function keeps "20-40", returns "2.0 4.0" and that resolves
  to 4.0; the leaf width function keeps "10-30 mm", returns
  "1.0 3.0" and that resolves to 3.0. The unit is looked for in the whole answer, before
  the split at the "x": the piece "20-40" alone has no unit, and in "20 mm x 10" the width
  is converted with the unit that stands before the "x".
\<close>

theorem leaf_examples:
  "dict_get conversion_dict ''mm'' = Inr (Finite 1)
   \<and> post_process_answer_leaf_length ''20-40x10-30 mm'' = Inr ''2.0 4.0''
   \<and> post_post_process_answer ''2.0 4.0'' = Inr (PyFloat (Finite 4))
   \<and> post_process_answer_leaf_width ''20-40x10-30 mm'' = Inr ''1.0 3.0''
   \<and> post_post_process_answer ''1.0 3.0'' = Inr (PyFloat (Finite 3))
   \<and> find_metric (str_split CHR '' '' (translate_punctuation ''20-40x10-30 mm'')) available_units None
       = Some ''mm''
   \<and> post_process_answer_leaf_length ''20-40'' = Inr ''No metric''
   \<and> post_process_answer_leaf_width ''20 mm x 10'' = Inr ''1.0''"
proof (intro conjI)
  show "dict_get conversion_dict ''mm'' = Inr (Finite 1)"
    by (rule rates)
  show "post_process_answer_leaf_length ''20-40x10-30 mm'' = Inr ''2.0 4.0''"
    by (simp add: post_process_answer_leaf_length_def text_eval numbers)
  show "post_post_process_answer ''2.0 4.0'' = Inr (PyFloat (Finite 4))"
    by (simp add: post_post_process_answer_def text_eval numbers)
  show "post_process_answer_leaf_width ''20-40x10-30 mm'' = Inr ''1.0 3.0''"
    by (simp add: post_process_answer_leaf_width_def text_eval numbers)
  show "post_post_process_answer ''1.0 3.0'' = Inr (PyFloat (Finite 3))"
    by (simp add: post_post_process_answer_def text_eval numbers)
  show "find_metric (str_split CHR '' '' (translate_punctuation ''20-40x10-30 mm'')) available_units None
       = Some ''mm''"
    by (simp add: text_eval)
  show "post_process_answer_leaf_length ''20-40'' = Inr ''No metric''"
    by (simp add: post_process_answer_leaf_length_def text_eval)
  show "post_process_answer_leaf_width ''20 mm x 10'' = Inr ''1.0''"
    by (simp add: post_process_answer_leaf_width_def text_eval numbers)
qed

text \<open>
  Claim C8. Let the description be a string with a digit, the list of questions not empty,
  and the pipeline answer by a function \<open>f\<close> that never gives a NaN score, logging its
  calls. Then the calls are the questions, each once, in the order of the list, each with
  the description; and for some position \<open>i\<close> of the list the result is the question at
  \<open>i\<close>, its answer and its score rounded to 3 decimals, where no rounded score is
  greater than the one at \<open>i\<close> and every rounded score before \<open>i\<close> is less.
  At the scores 0.1231, 0.1233 and 0.0007 the second question has the greatest score, but the
  first two scores are both rounded to 0.123 and the third to 0.001, so the first question is
  returned, with the score 0.123.
\<close>

theorem selector_argmax:
  assumes "list_ex isdigit d" and "Questions \<noteq> []"
    and "NaN \<notin> set (map (\<lambda>q. snd (f (q, d))) Questions)"
  shows "\<exists>i < length Questions.
           QA_Prediction Questions (Str d) (logged f) []
             = (Inr (Questions ! i, fst (f (Questions ! i, d)),
                     PyFloat (np_round (snd (f (Questions ! i, d))) 3)),
                map (\<lambda>q. (q, d)) Questions)
           \<and> (\<forall>j < length Questions.
                 fle (np_round (snd (f (Questions ! j, d))) 3)
                     (np_round (snd (f (Questions ! i, d))) 3))
           \<and> (\<forall>j < i.
                 \<not> fle (np_round (snd (f (Questions ! i, d))) 3)
                       (np_round (snd (f (Questions ! j, d))) 3))"
proof -
  let ?scores = "map (\<lambda>q. np_round (snd (f (q, d))) 3) Questions"
  have "?scores \<noteq> []"
    using assms(2) by simp
  moreover have "NaN \<notin> set ?scores"
  proof
    assume "NaN \<in> set ?scores"
    then obtain q where q: "q \<in> set Questions" and "np_round (snd (f (q, d))) 3 = NaN"
      by auto
    then have "snd (f (q, d)) = NaN"
      by (simp add: np_round_NaN)
    with q assms(3) show False
      by force
  qed
  ultimately obtain i where i: "np_argmax ?scores = Inr i" and fm: "first_max ?scores i"
    using np_argmax_first_max by blast
  from fm have len: "i < length Questions"
    by (simp add: first_max_def)
  have "QA_Prediction Questions (Str d) (logged f) []
          = (Inr (Questions ! i, fst (f (Questions ! i, d)),
                  PyFloat (np_round (snd (f (Questions ! i, d))) 3)),
             map (\<lambda>q. (q, d)) Questions)"
    using assms(1) i len
    by (simp add: QA_Prediction_def ask_questions_logged py_bind_def getitem_def)
  moreover have "\<forall>j < length Questions.
      fle (np_round (snd (f (Questions ! j, d))) 3) (np_round (snd (f (Questions ! i, d))) 3)"
    using fm len by (simp add: first_max_def)
  moreover have "\<forall>j < i.
      \<not> fle (np_round (snd (f (Questions ! i, d))) 3) (np_round (snd (f (Questions ! j, d))) 3)"
    using fm len by (simp add: first_max_def)
  ultimately show ?thesis
    using len by blast
qed

theorem selector_argmax_witness:
  "QA_Prediction [''How tall is the plant?'', ''What is the height?'', ''How high?'']
      (Str ''Tree 3 m tall.'')
      (logged (\<lambda>QA_input.
         if fst QA_input = ''How tall is the plant?'' then (''3 m'', round_to_double (1231 / 10000))
         else if fst QA_input = ''What is the height?'' then (''Tree'', round_to_double (1233 / 10000))
         else (''tall'', round_to_double (7 / 10000)))) []
    = (Inr (''How tall is the plant?'', ''3 m'', PyFloat (round_to_double (123 / 1000))),
       [(''How tall is the plant?'', ''Tree 3 m tall.''),
        (''What is the height?'', ''Tree 3 m tall.''),
        (''How high?'', ''Tree 3 m tall.'')])
   \<and> \<not> fle (round_to_double (1233 / 10000)) (round_to_double (1231 / 10000))
   \<and> np_round (round_to_double (1231 / 10000)) 3 = round_to_double (123 / 1000)
   \<and> np_round (round_to_double (1233 / 10000)) 3 = round_to_double (123 / 1000)
   \<and> np_round (round_to_double (7 / 10000)) 3 = round_to_double (1 / 1000)"
proof (intro conjI)
  let ?f = "\<lambda>QA_input :: string \<times> string.
              if fst QA_input = ''How tall is the plant?'' then (''3 m'', round_to_double (1231 / 10000))
              else if fst QA_input = ''What is the height?'' then (''Tree'', round_to_double (1233 / 10000))
              else (''tall'', round_to_double (7 / 10000))"
  let ?Q = "[''How tall is the plant?'', ''What is the height?'', ''How high?'']"
  let ?d = "''Tree 3 m tall.''"
  have digit: "list_ex isdigit ?d"
    by (simp add: isdigit_def)
  have nonempty: "?Q \<noteq> []"
    by simp
  have nonan: "NaN \<notin> set (map (\<lambda>q. snd (?f (q, ?d))) ?Q)"
    by (simp add: round_to_double_not_NaN [THEN not_sym])
  from selector_argmax [of ?d ?Q ?f, OF digit nonempty nonan]
  obtain i where i: "i < length ?Q"
    and res: "QA_Prediction ?Q (Str ?d) (logged ?f) []
             = (Inr (?Q ! i, fst (?f (?Q ! i, ?d)), PyFloat (np_round (snd (?f (?Q ! i, ?d))) 3)),
                map (\<lambda>q. (q, ?d)) ?Q)"
    and ub: "\<forall>j < length ?Q.
               fle (np_round (snd (?f (?Q ! j, ?d))) 3) (np_round (snd (?f (?Q ! i, ?d))) 3)"
    and lb: "\<forall>j < i.
               \<not> fle (np_round (snd (?f (?Q ! i, ?d))) 3) (np_round (snd (?f (?Q ! j, ?d))) 3)"
    by blast
  from i have "i = 0 \<or> i = 1 \<or> i = 2"
    by auto
  then have "i = 0"
  proof (elim disjE)
    assume "i = 0"
    then show ?thesis .
  next
    assume "i = 1"
    with spec [OF lb, of 0]
    have "\<not> fle (np_round (snd (?f (?Q ! 1, ?d))) 3) (np_round (snd (?f (?Q ! 0, ?d))) 3)"
      by simp
    then show ?thesis
      by (simp add: round_0_1231 round_0_1233 fle_def)
  next
    assume "i = 2"
    with spec [OF ub, of 0]
    have "fle (np_round (snd (?f (?Q ! 0, ?d))) 3) (np_round (snd (?f (?Q ! 2, ?d))) 3)"
      by simp
    then show ?thesis
      by (simp add: round_0_1231 round_0_0007 fle_def)
  qed
  with res show "QA_Prediction ?Q (Str ?d) (logged ?f) []
    = (Inr (''How tall is the plant?'', ''3 m'', PyFloat (round_to_double (123 / 1000))),
       [(''How tall is the plant?'', ''Tree 3 m tall.''),
        (''What is the height?'', ''Tree 3 m tall.''),
        (''How high?'', ''Tree 3 m tall.'')])"
    by (simp add: round_0_1231 double_0_123)
next
  show "\<not> fle (round_to_double (1233 / 10000)) (round_to_double (1231 / 10000))"
    by (simp add: double_0_1231 double_0_1233 fle_def)
  show "np_round (round_to_double (1231 / 10000)) 3 = round_to_double (123 / 1000)"
    by (simp only: round_0_1231 double_0_123)
  show "np_round (round_to_double (1233 / 10000)) 3 = round_to_double (123 / 1000)"
    by (simp only: round_0_1233 double_0_123)
  show "np_round (round_to_double (7 / 10000)) 3 = round_to_double (1 / 1000)"
    by (simp add: arith_eval)
qed

text \<open>
  Claim C9, as stated, makes the detection of the unit independent of the letter case. The
  code compares the pieces with the lower-case symbols and never changes the case of the
  answer: "5 CM" has no unit for it, "5 cm" has.
\<close>

theorem upper_case_unit:
  "post_process_answer_height ''5 CM'' = Inr ''No metric''
   \<and> post_process_answer_height ''5 cm'' = Inr ''0.05''"
proof (intro conjI)
  show "post_process_answer_height ''5 CM'' = Inr ''No metric''"
    by (simp add: post_process_answer_height_def text_eval)
  show "post_process_answer_height ''5 cm'' = Inr ''0.05''"
    by (simp add: post_process_answer_height_def text_eval numbers)
qed

text \<open>
  Claim C9, amended. The unit found does not depend on punctuation: a punctuation character
  put anywhere into the answer changes neither search. Either search finds a unit exactly
  when one of the eight symbols, as it is written in the list, is equal to a whole piece
  of the answer, the pieces being what stands between the spaces once the punctuation is
  deleted. When no symbol is such a piece, each of the three functions returns
  "No metric".
\<close>

theorem unit_detection_exact_tokens:
  "(p \<in> set string_punctuation \<longrightarrow>
      find_metric_break (str_split CHR '' '' (translate_punctuation (a @ p # b))) available_units
        = find_metric_break (str_split CHR '' '' (translate_punctuation (a @ b))) available_units
      \<and> find_metric (str_split CHR '' '' (translate_punctuation (a @ p # b))) available_units None
        = find_metric (str_split CHR '' '' (translate_punctuation (a @ b))) available_units None)
   \<and> (find_metric_break words available_units = None) = (set available_units \<inter> set words = {})
   \<and> (find_metric words available_units None = None) = (set available_units \<inter> set words = {})
   \<and> (set available_units \<inter> set (str_split CHR '' '' (translate_punctuation answer)) = {} \<longrightarrow>
        post_process_answer_height answer = Inr ''No metric''
        \<and> post_process_answer_leaf_length answer = Inr ''No metric''
        \<and> post_process_answer_leaf_width answer = Inr ''No metric'')"
proof (intro conjI impI)
  assume "p \<in> set string_punctuation"
  then have same: "translate_punctuation (a @ p # b) = translate_punctuation (a @ b)"
    by (rule translate_punctuation_insert)
  show "find_metric_break (str_split CHR '' '' (translate_punctuation (a @ p # b))) available_units
        = find_metric_break (str_split CHR '' '' (translate_punctuation (a @ b))) available_units"
    by (simp only: same)
  show "find_metric (str_split CHR '' '' (translate_punctuation (a @ p # b))) available_units None
        = find_metric (str_split CHR '' '' (translate_punctuation (a @ b))) available_units None"
    by (simp only: same)
next
  show "(find_metric_break words available_units = None) = (set available_units \<inter> set words = {})"
    by (rule find_metric_break_None)
  show "(find_metric words available_units None = None) = (set available_units \<inter> set words = {})"
    by (simp add: find_metric_None)
next
  assume none: "set available_units \<inter> set (str_split CHR '' '' (translate_punctuation answer)) = {}"
  then have "find_metric_break (str_split CHR '' '' (translate_punctuation answer)) available_units
               = None"
    by (simp only: find_metric_break_None)
  then show "post_process_answer_height answer = Inr ''No metric''"
    by (simp add: post_process_answer_height_def)
  from none
  have none': "find_metric (str_split CHR '' '' (translate_punctuation answer)) available_units None
                 = None"
    by (simp add: find_metric_None)
  then show "post_process_answer_leaf_length answer = Inr ''No metric''"
    by (simp add: post_process_answer_leaf_length_def)
  from none' show "post_process_answer_leaf_width answer = Inr ''No metric''"
    by (simp add: post_process_answer_leaf_width_def)
qed

theorem unit_detection_exact_tokens_witness:
  "CHR ''.'' \<in> set string_punctuation
   \<and> find_metric_break (str_split CHR '' '' (translate_punctuation ''(5 cm.)'')) available_units
       = Some ''cm''
   \<and> find_metric (str_split CHR '' '' (translate_punctuation ''(5 cm.)'')) available_units None
       = Some ''cm''
   \<and> set available_units \<inter> set (str_split CHR '' '' (translate_punctuation ''about 5 metres'')) = {}
   \<and> post_process_answer_height ''about 5 metres'' = Inr ''No metric''
   \<and> post_process_answer_leaf_length ''about 5 metres'' = Inr ''No metric''
   \<and> post_process_answer_leaf_width ''about 5 metres'' = Inr ''No metric''"
  using unit_detection_exact_tokens [of "CHR ''.''" "''(5 cm''" "'')''" "[]" "''about 5 metres''"]
  by (simp add: text_eval)

text \<open>
  Claim C10. On every string the resolver returns, and returns a float or the integer -1:
  the numeric check never raises (the only exception of the parse is ValueError, which it
  catches), and a split always has a first part.
\<close>

theorem resolver_total:
  "(\<exists>b. is_float element = Inr b)
   \<and> str_split CHR '' '' answer \<noteq> []
   \<and> (\<exists>v. post_post_process_answer answer = Inr v \<and> (v = PyInt (- 1) \<or> (\<exists>x. v = PyFloat x)))"
  by (auto simp: post_post_process_answer_def Let_def py_bind_def getitem_def is_float_cases
                 str_split_not_Nil
           split: list.splits sum.splits)

end
